theory Spec2Isabelle
  imports Complex_Main
begin

section \<open>Python values decoded from JSON\<close>

text \<open>
  The client only ever looks at what \<^verbatim>\<open>response.json()\<close> returns and at the
  dictionaries it builds itself. A decoded JSON document is a Python value: \<^verbatim>\<open>None\<close>,
  a bool, an int, a float, a str, a list or a dict. A dict is kept as an association list
  with distinct keys in insertion order.
\<close>

datatype pyfloat = Finite rat | PosInf | NegInf | NaN

datatype json =
    JNull
  | JBool bool
  | JInt int
  | JFloat pyfloat
  | JStr string
  | JArr "json list"
  | JObj "(string \<times> json) list"

text \<open>
  The exceptions that can reach a caller. \<^verbatim>\<open>APIError\<close> and \<^verbatim>\<open>ServerError\<close> are
  imported from \<^verbatim>\<open>tenable.base\<close>; the others are Python's own. \<open>OtherError\<close> stands
  for whatever the HTTP layer or a caller-supplied function raises.
\<close>

datatype error =
    ValueError
  | KeyError string
  | TypeError
  | OverflowError
  | APIError json json
  | ServerError string
  | OtherError string

text \<open>Python's truth value of an object, as tested by \<^verbatim>\<open>if x:\<close>.\<close>

fun truthy :: "json \<Rightarrow> bool" where
  "truthy JNull = False"
| "truthy (JBool b) = b"
| "truthy (JInt n) = (n \<noteq> 0)"
| "truthy (JFloat (Finite q)) = (q \<noteq> 0)"
| "truthy (JFloat _) = True"
| "truthy (JStr s) = (s \<noteq> [])"
| "truthy (JArr xs) = (xs \<noteq> [])"
| "truthy (JObj kvs) = (kvs \<noteq> [])"

text \<open>
  \<^verbatim>\<open>d[k]\<close> with a string key: a dict looks the key up and raises \<^verbatim>\<open>KeyError\<close>
  when it is missing; every other decoded value raises \<^verbatim>\<open>TypeError\<close>.
\<close>

fun getitem :: "json \<Rightarrow> string \<Rightarrow> error + json" where
  "getitem (JObj kvs) k = (case map_of kvs k of None \<Rightarrow> Inl (KeyError k) | Some v \<Rightarrow> Inr v)"
| "getitem _ k = Inl TypeError"

text \<open>\<^verbatim>\<open>d[k] = v\<close> on a dict; a key that is set again keeps its place.\<close>

fun dict_set :: "(string \<times> 'v) list \<Rightarrow> string \<Rightarrow> 'v \<Rightarrow> (string \<times> 'v) list" where
  "dict_set [] k v = [(k, v)]"
| "dict_set ((k', v') # kvs) k v =
     (if k' = k then (k, v) # kvs else (k', v') # dict_set kvs k v)"

text \<open>Sequencing of computations that may raise.\<close>

definition bind_err :: "error + 'a \<Rightarrow> ('a \<Rightarrow> error + 'b) \<Rightarrow> error + 'b" where
  "bind_err m f = (case m of Inl e \<Rightarrow> Inl e | Inr x \<Rightarrow> f x)"

subsection \<open>The builtin \<^verbatim>\<open>int()\<close>\<close>

text \<open>
  The server sends its counters as strings, so the client converts them with
  \<^verbatim>\<open>int()\<close>. On a str, \<^verbatim>\<open>int\<close> strips white space, reads an optional sign and then
  decimal digits, where single underscores may separate digits; anything else is a
  \<^verbatim>\<open>ValueError\<close>. Strings are byte strings here, so only ASCII digits are recognised,
  and the white space is that of an ASCII string: the blank and the characters 9 to 13
  (tab, line feed, vertical tab, form feed, carriage return). The limit that recent
  interpreters put on the number of digits is left out.
\<close>

definition is_space :: "char \<Rightarrow> bool" where
  "is_space c = (let n = (of_char c :: nat) in n = 32 \<or> (9 \<le> n \<and> n \<le> 13))"

definition is_digit :: "char \<Rightarrow> bool" where
  "is_digit c = (let n = (of_char c :: nat) in 48 \<le> n \<and> n \<le> 57)"

fun digit_groups :: "string \<Rightarrow> bool" where
  "digit_groups [] = False"
| "digit_groups [c] = is_digit c"
| "digit_groups (c # d # cs) =
     (is_digit c \<and> (if d = CHR ''_'' then digit_groups cs else digit_groups (d # cs)))"

definition digits_value :: "string \<Rightarrow> int" where
  "digits_value ds = fold (\<lambda>c a. 10 * a + (int (of_char c) - 48)) (filter is_digit ds) 0"

definition strip :: "string \<Rightarrow> string" where
  "strip s = rev (dropWhile is_space (rev (dropWhile is_space s)))"

definition int_of_str :: "string \<Rightarrow> error + int" where
  "int_of_str s =
     (let t = strip s;
          neg = (t \<noteq> [] \<and> hd t = CHR ''-'');
          ds = (if t \<noteq> [] \<and> (hd t = CHR ''-'' \<or> hd t = CHR ''+'') then tl t else t)
      in if digit_groups ds then Inr (if neg then - digits_value ds else digits_value ds)
         else Inl ValueError)"

fun py_int :: "json \<Rightarrow> error + int" where
  "py_int (JInt n) = Inr n"
| "py_int (JBool b) = Inr (if b then 1 else 0)"
| "py_int (JFloat (Finite q)) = Inr (if q < 0 then - \<lfloor>- q\<rfloor> else \<lfloor>q\<rfloor>)"
| "py_int (JFloat NaN) = Inl ValueError"
| "py_int (JFloat _) = Inl OverflowError"
| "py_int (JStr s) = int_of_str s"
| "py_int _ = Inl TypeError"

section \<open>Responses and the response error check\<close>

text \<open>
  A response of the HTTP layer. \<open>body\<close> is what \<^verbatim>\<open>response.json()\<close> decodes, or
  \<open>None\<close> when the body is not JSON, in which case \<^verbatim>\<open>json()\<close> raises a
  \<^verbatim>\<open>ValueError\<close>. \<open>set_cookie\<close> lists the cookies the response sets.
\<close>

record response =
  body :: "json option"
  set_cookie :: "(string \<times> string) list"

definition resp_json :: "response \<Rightarrow> error + json" where
  "resp_json r = (case body r of None \<Rightarrow> Inl ValueError | Some d \<Rightarrow> Inr d)"

text \<open>
  \<^verbatim>\<open>
  def _resp_error_check(self, response):
      try:
          d = response.json()
          if d['error_code']:
              raise APIError(d['error_code'], d['error_msg'])
      except ValueError:
          pass
      return response
  \<close>
  \<open>error_check_body\<close> is the block under \<^verbatim>\<open>try\<close>; the handler lets a
  \<^verbatim>\<open>ValueError\<close> pass and nothing else.

  Modelled from the spec: the class \<^verbatim>\<open>APIError\<close> of \<^verbatim>\<open>tenable.base\<close>, which is not
  among the sources. It is an error of its own kind (not a \<^verbatim>\<open>ValueError\<close>) that
  carries the code and the message it is built from.
\<close>

definition error_check_body :: "response \<Rightarrow> error + unit" where
  "error_check_body response =
     bind_err (resp_json response) (\<lambda>d.
     bind_err (getitem d ''error_code'') (\<lambda>code.
       if truthy code
       then bind_err (getitem d ''error_msg'') (\<lambda>msg. Inl (APIError code msg))
       else Inr ()))"

definition resp_error_check :: "response \<Rightarrow> error + response" where
  "resp_error_check response =
     (case error_check_body response of
        Inl ValueError \<Rightarrow> Inr response
      | Inl e \<Rightarrow> Inl e
      | Inr _ \<Rightarrow> Inr response)"

section \<open>The HTTP session\<close>

text \<open>
  What the client sends: method, path, the session's headers and cookies at that moment,
  and the payload (a JSON document, an uploaded file, or nothing).
\<close>

datatype payload = NoPayload | JsonPayload json | FilePayload string string

record request =
  meth :: string
  path :: string
  req_headers :: "(string \<times> json) list"
  req_cookies :: "(string \<times> string) list"
  payload :: payload

text \<open>
  The network and the server are the environment: a function from the requests sent so
  far (the latest last) to the outcome of the latest one, either an exception of the
  HTTP layer or a response. A server with a state of its own is such a function.
\<close>

type_synonym server = "request list \<Rightarrow> error + response"

text \<open>
  The session owned by the client: its default headers, its cookie jar, and the requests
  it has sent (kept so that properties can speak about them).
\<close>

record session =
  headers :: "(string \<times> json) list"
  cookies :: "(string \<times> string) list"
  sent :: "request list"

text \<open>
  Modelled from the spec: \<^verbatim>\<open>APISession._build_session\<close> of \<^verbatim>\<open>tenable.base\<close>, which is
  not among the sources. It rebuilds the transport state, which clears the cookies and
  the authentication header.
\<close>

definition build_session :: "session \<Rightarrow> session" where
  "build_session s = s\<lparr>headers := [], cookies := []\<rparr>"

text \<open>
  Modelled from the spec: the request methods \<^verbatim>\<open>get\<close>, \<^verbatim>\<open>post\<close> and \<^verbatim>\<open>delete\<close> of
  \<^verbatim>\<open>APISession\<close> in \<^verbatim>\<open>tenable.base\<close>, which is not among the sources. A request goes
  out with the session's headers and cookies, a failure of the HTTP layer is raised, the
  cookies of the response are stored, and the response error check is applied to every
  response.
\<close>

definition api_request ::
  "server \<Rightarrow> string \<Rightarrow> string \<Rightarrow> payload \<Rightarrow> session \<Rightarrow> (error + response) \<times> session" where
  "api_request srv m p pl s =
     (let rq = \<lparr>meth = m, path = p, req_headers = headers s, req_cookies = cookies s,
                payload = pl\<rparr>;
          s1 = s\<lparr>sent := sent s @ [rq]\<rparr>
      in case srv (sent s1) of
           Inl e \<Rightarrow> (Inl e, s1)
         | Inr r \<Rightarrow>
             (resp_error_check r,
              s1\<lparr>cookies := fold (\<lambda>kv c. dict_set c (fst kv) (snd kv)) (set_cookie r) (cookies s1)\<rparr>))"

section \<open>Construction\<close>

text \<open>
  Modelled from the spec: \<^verbatim>\<open>APISession.__init__\<close> of \<^verbatim>\<open>tenable.base\<close>, which is not
  among the sources. It builds the session, on which nothing has been sent yet.
\<close>

definition new_session :: session where
  "new_session = build_session \<lparr>headers = [], cookies = [], sent = []\<rparr>"

text \<open>Decimal digits of a number, for \<^verbatim>\<open>'{}://{}:{}'.format(scheme, host, port)\<close>.\<close>

definition digit_char :: "nat \<Rightarrow> char" where
  "digit_char d = char_of (of_char CHR ''0'' + d)"

fun string_of_nat :: "nat \<Rightarrow> string" where
  "string_of_nat n =
     (let last_digit = [digit_char (n mod 10)]
      in if n div 10 = 0 then last_digit else string_of_nat (n div 10) @ last_digit)"

declare string_of_nat.simps [simp del]

record securitycenter =
  session :: session
  url :: string
  version :: json
  build_id :: json
  license :: json
  uuid :: json

text \<open>\<^verbatim>\<open>d['response'][k]\<close>\<close>

definition response_item :: "json \<Rightarrow> string \<Rightarrow> error + json" where
  "response_item d k = bind_err (getitem d ''response'') (\<lambda>r. getitem r k)"

text \<open>
  \<^verbatim>\<open>
  url = '{}://{}:{}'.format(scheme, host, port)
  APISession.__init__(self, url, retries, backoff)
  try:
      d = self.get('system').json()
  except:
      raise ServerError('No SecurityCenter Instance at {}'.format(self.host))
  try:
      self.version = d['response']['version']
      self.build_id = d['response']['buildID']
      self.license = d['response']['licenseStatus']
      self.uuid = d['response']['uuid']
  except:
      raise ServerError('Invalid SecurityCenter Instance')
  \<close>
  Both handlers are bare: they catch every exception. The retry policy is handed to the
  HTTP layer and the warning filter of \<^verbatim>\<open>ssl_verify\<close> is process state; neither is
  part of the model.

  Modelled from the spec: the attribute \<^verbatim>\<open>self.host\<close>, which this class never assigns and
  which \<^verbatim>\<open>tenable.base\<close> (not among the sources) has to provide; it names the target
  host.
\<close>

definition init_identity :: "json \<Rightarrow> error + json \<times> json \<times> json \<times> json" where
  "init_identity d =
     bind_err (response_item d ''version'') (\<lambda>v.
     bind_err (response_item d ''buildID'') (\<lambda>b.
     bind_err (response_item d ''licenseStatus'') (\<lambda>l.
     bind_err (response_item d ''uuid'') (\<lambda>u. Inr (v, b, l, u)))))"

definition init :: "server \<Rightarrow> string \<Rightarrow> nat \<Rightarrow> string \<Rightarrow> error + securitycenter" where
  "init srv host port scheme =
     (let url = scheme @ ''://'' @ host @ '':'' @ string_of_nat port;
          s0 = new_session
      in case api_request srv ''GET'' ''system'' NoPayload s0 of
           (Inl e, s1) \<Rightarrow> Inl (ServerError (''No SecurityCenter Instance at '' @ host))
         | (Inr resp, s1) \<Rightarrow>
             (case resp_json resp of
                Inl e \<Rightarrow> Inl (ServerError (''No SecurityCenter Instance at '' @ host))
              | Inr d \<Rightarrow>
                  (case init_identity d of
                     Inl e \<Rightarrow> Inl (ServerError ''Invalid SecurityCenter Instance'')
                   | Inr (v, b, l, u) \<Rightarrow>
                       Inr \<lparr>session = s1, url = url, version = v, build_id = b,
                            license = l, uuid = u\<rparr>)))"

section \<open>Login, logout, upload\<close>

text \<open>
  \<^verbatim>\<open>
  def login(self, user, passwd):
      resp = self.post('token', json={'username': user, 'password': passwd})
      self._session.headers.update({
          'X-SecurityCenter': resp.json()['response']['token']
      })
  \<close>
\<close>

definition login :: "server \<Rightarrow> string \<Rightarrow> string \<Rightarrow> session \<Rightarrow> (error + unit) \<times> session" where
  "login srv user passwd s =
     (case api_request srv ''POST'' ''token''
             (JsonPayload (JObj [(''username'', JStr user), (''password'', JStr passwd)])) s of
        (Inl e, s1) \<Rightarrow> (Inl e, s1)
      | (Inr resp, s1) \<Rightarrow>
          (case bind_err (resp_json resp) (\<lambda>d. response_item d ''token'') of
             Inl e \<Rightarrow> (Inl e, s1)
           | Inr token \<Rightarrow>
               (Inr (), s1\<lparr>headers := dict_set (headers s1) ''X-SecurityCenter'' token\<rparr>)))"

text \<open>
  \<^verbatim>\<open>
  def logout(self):
      resp = self.delete('token')
      self._build_session()
  \<close>
  An exception of \<^verbatim>\<open>self.delete\<close> leaves the method at once.
\<close>

definition logout :: "server \<Rightarrow> session \<Rightarrow> (error + unit) \<times> session" where
  "logout srv s =
     (case api_request srv ''DELETE'' ''token'' NoPayload s of
        (Inl e, s1) \<Rightarrow> (Inl e, s1)
      | (Inr resp, s1) \<Rightarrow> (Inr (), build_session s1))"

text \<open>\<^verbatim>\<open>return self.post('file/upload', files={'Filedata': fileobj})\<close>\<close>

definition upload :: "server \<Rightarrow> string \<Rightarrow> session \<Rightarrow> (error + response) \<times> session" where
  "upload srv fileobj s = api_request srv ''POST'' ''file/upload'' (FilePayload ''Filedata'' fileobj) s"

section \<open>The analysis query\<close>

text \<open>
  The keyword arguments of \<^verbatim>\<open>analysis\<close>, each one absent (\<open>None\<close>) or given.
  \<open>page\<close> is the string \<^verbatim>\<open>'all'\<close> or a page number. \<open>kw_rest\<close> holds every other
  keyword argument; they go into the request body as they are.
\<close>

datatype page = AllPages | PageNo int

text \<open>
  What a result transform returns: a \<^verbatim>\<open>list\<close>, a \<^verbatim>\<open>tuple\<close> (a sequence that is
  not a list), or any other object (a generator, \<^verbatim>\<open>None\<close>, ...). The code only asks
  \<^verbatim>\<open>isinstance(out, list)\<close>.
\<close>

datatype pyout = PyList "json list" | PyTuple "json list" | PyOther

type_synonym transform = "(string \<times> json) list \<Rightarrow> response \<Rightarrow> error + pyout"

type_synonym filter = "json \<times> json \<times> json"

record 'g kwargs =
  kw_page :: "page option"
  kw_page_size :: "int option"
  kw_page_obj :: "transform option"
  kw_page_kwargs :: "(string \<times> json) list option"
  kw_type :: "json option"
  kw_sourceType :: "json option"
  kw_generator :: "'g option"
  kw_tool :: "json option"
  kw_query :: "(string \<times> json) list option"
  kw_rest :: "(string \<times> json) list"

record opts =
  page :: page
  page_size :: int
  page_obj :: transform
  page_kwargs :: "(string \<times> json) list"
  generator :: "transform option"

text \<open>
  \<^verbatim>\<open>
  def return_results(**kwargs):
      return kwargs['resp'].json()['response']['results']

  def return_generator(**kwargs):
      for item in kwargs['resp'].json()['response']['results']:
          yield item
  \<close>
  The first argument holds the keyword arguments other than \<^verbatim>\<open>resp\<close>. Calling a
  generator function runs none of its body: it returns a generator object.
\<close>

definition return_results :: transform where
  "return_results kwargs resp =
     bind_err (resp_json resp) (\<lambda>d.
     bind_err (response_item d ''results'') (\<lambda>v.
       Inr (case v of JArr items \<Rightarrow> PyList items | _ \<Rightarrow> PyOther)))"

definition return_generator :: transform where
  "return_generator kwargs resp = Inr PyOther"

text \<open>
  \<^verbatim>\<open>
  if 'page' not in kwargs: kwargs['page'] = 'all'
  if 'page_size' not in kwargs: kwargs['page_size'] = 1000
  if 'page_obj' not in kwargs: kwargs['page_obj'] = return_results
  if 'page_kwargs' not in kwargs: kwargs['page_kwargs'] = {}
  if 'generator' in kwargs: kwargs['generator'] = return_generator
  opts = {}
  for opt in ['page', 'page_size', 'page_obj', 'page_kwargs', 'generator']:
      if opt in kwargs:
          opts[opt] = kwargs[opt]
          del kwargs[opt]
  \<close>
\<close>

definition analysis_opts :: "'g kwargs \<Rightarrow> opts" where
  "analysis_opts kw =
     \<lparr>page = (case kw_page kw of None \<Rightarrow> AllPages | Some p \<Rightarrow> p),
      page_size = (case kw_page_size kw of None \<Rightarrow> 1000 | Some n \<Rightarrow> n),
      page_obj = (case kw_page_obj kw of None \<Rightarrow> return_results | Some f \<Rightarrow> f),
      page_kwargs = (case kw_page_kwargs kw of None \<Rightarrow> [] | Some d \<Rightarrow> d),
      generator = (case kw_generator kw of None \<Rightarrow> None | Some g \<Rightarrow> Some return_generator)\<rparr>"

text \<open>
  \<^verbatim>\<open>
  'filters': [{'filterName': f[0], 'operator': f[1], 'value': f[2],
               'type': kwargs['type']} for f in filters]
  \<close>
\<close>

definition filter_entry :: "json \<Rightarrow> filter \<Rightarrow> json" where
  "filter_entry ty f =
     (case f of (f0, f1, f2) \<Rightarrow>
        JObj [(''filterName'', f0), (''operator'', f1), (''value'', f2), (''type'', ty)])"

text \<open>
  \<^verbatim>\<open>
  if 'type' not in kwargs: kwargs['type'] = 'vuln'
  if 'sourceType' not in kwargs: kwargs['sourceType'] = 'cumulative'
  ...
  if 'query' not in kwargs:
      kwargs['query'] = {
          'tool': kwargs['tool'],
          'type': kwargs['type'],
          'filters': [...]
      }
      del kwargs['tool']
      if opts['page'] == 'all':
          kwargs['query']['startOffset'] = 0
          kwargs['query']['endOffset'] = opts['page_size']
      else:
          kwargs['query']['startOffset'] = opts['page'] * opts['page_size']
          kwargs['query']['endOffset'] = (opts['page'] + 1) * opts['page_size']
  \<close>
  \<open>build_query\<close> is the query dict built when the caller gave none, and
  \<open>analysis_kwargs\<close> is \<^verbatim>\<open>kwargs\<close> as it stands before the loop: the body of every
  request. The options have been taken out of it; \<^verbatim>\<open>tool\<close> is taken out only when
  the query is built here. A missing \<^verbatim>\<open>tool\<close> is a \<^verbatim>\<open>KeyError\<close> then.
\<close>

definition build_query :: "filter list \<Rightarrow> json \<Rightarrow> json \<Rightarrow> opts \<Rightarrow> (string \<times> json) list" where
  "build_query filters tool ty opts =
     (let q = [(''tool'', tool), (''type'', ty), (''filters'', JArr (map (filter_entry ty) filters))]
      in case page opts of
           AllPages \<Rightarrow>
             dict_set (dict_set q ''startOffset'' (JInt 0)) ''endOffset'' (JInt (page_size opts))
         | PageNo p \<Rightarrow>
             dict_set (dict_set q ''startOffset'' (JInt (p * page_size opts)))
               ''endOffset'' (JInt ((p + 1) * page_size opts)))"

definition analysis_kwargs :: "filter list \<Rightarrow> 'g kwargs \<Rightarrow> error + (string \<times> json) list" where
  "analysis_kwargs filters kw =
     (let ty = (case kw_type kw of None \<Rightarrow> JStr ''vuln'' | Some t \<Rightarrow> t);
          src = (case kw_sourceType kw of None \<Rightarrow> JStr ''cumulative'' | Some t \<Rightarrow> t);
          kwargs = dict_set (dict_set (kw_rest kw) ''type'' ty) ''sourceType'' src
      in case kw_query kw of
           Some q \<Rightarrow>
             Inr (dict_set
                    (case kw_tool kw of None \<Rightarrow> kwargs | Some tool \<Rightarrow> dict_set kwargs ''tool'' tool)
                    ''query'' (JObj q))
         | None \<Rightarrow>
             (case kw_tool kw of
                None \<Rightarrow> Inl (KeyError ''tool'')
              | Some tool \<Rightarrow>
                  Inr (dict_set kwargs ''query''
                         (JObj (build_query filters tool ty (analysis_opts kw))))))"

text \<open>The variables of the loop; \<open>outputs\<close> is the list \<^verbatim>\<open>output\<close>.\<close>

record loop_state =
  kwargs :: "(string \<times> json) list"
  count :: int
  total_records :: int
  outputs :: "json list"

text \<open>\<^verbatim>\<open>kwargs['query'][k] = v\<close>\<close>

definition set_query_item ::
  "(string \<times> json) list \<Rightarrow> string \<Rightarrow> json \<Rightarrow> error + (string \<times> json) list" where
  "set_query_item kw k v =
     (case map_of kw ''query'' of
        None \<Rightarrow> Inl (KeyError ''query'')
      | Some (JObj q) \<Rightarrow> Inr (dict_set kw ''query'' (JObj (dict_set q k v)))
      | Some _ \<Rightarrow> Inl TypeError)"

text \<open>
  \<^verbatim>\<open>
  if isinstance(out, list):
      for item in out:
          output.append(item)
  \<close>
\<close>

definition append_items :: "pyout \<Rightarrow> json list \<Rightarrow> json list" where
  "append_items out output =
     (case out of
        PyList items \<Rightarrow> fold (\<lambda>item acc. acc @ [item]) items output
      | _ \<Rightarrow> output)"

text \<open>\<^verbatim>\<open>int(resp.json()['response'][k])\<close>\<close>

definition response_int :: "response \<Rightarrow> string \<Rightarrow> error + int" where
  "response_int resp k =
     bind_err (resp_json resp) (\<lambda>d. bind_err (response_item d k) py_int)"

text \<open>
  One pass through the body of the loop:
  \<^verbatim>\<open>
  resp = self.post('analysis', json=kwargs)
  opts['page_kwargs']['resp'] = resp
  out = opts['page_obj'](**opts['page_kwargs'])
  if isinstance(out, list):
      for item in out:
          output.append(item)
  total_records = int(resp.json()['response']['totalRecords'])
  if opts['page'] == 'all':
      count = int(resp.json()['response']['endOffset'])
      kwargs['query']['startOffset'] = count
      kwargs['query']['endOffset'] = count + opts['page_size']
  else:
      count = total_records
  \<close>
\<close>

definition analysis_step ::
  "server \<Rightarrow> opts \<Rightarrow> loop_state \<Rightarrow> session \<Rightarrow> (error + loop_state) \<times> session" where
  "analysis_step srv opts st s =
     (case api_request srv ''POST'' ''analysis'' (JsonPayload (JObj (kwargs st))) s of
        (Inl e, s1) \<Rightarrow> (Inl e, s1)
      | (Inr resp, s1) \<Rightarrow>
          (bind_err (page_obj opts (page_kwargs opts) resp) (\<lambda>out.
           bind_err (response_int resp ''totalRecords'') (\<lambda>total.
             case page opts of
               AllPages \<Rightarrow>
                 bind_err (response_int resp ''endOffset'') (\<lambda>cnt.
                 bind_err (set_query_item (kwargs st) ''startOffset'' (JInt cnt)) (\<lambda>kw1.
                 bind_err (set_query_item kw1 ''endOffset'' (JInt (cnt + page_size opts))) (\<lambda>kw2.
                   Inr \<lparr>kwargs = kw2, count = cnt, total_records = total,
                        outputs = append_items out (outputs st)\<rparr>)))
             | PageNo p \<Rightarrow>
                 Inr \<lparr>kwargs = kwargs st, count = total, total_records = total,
                      outputs = append_items out (outputs st)\<rparr>)),
           s1))"

text \<open>
  \<^verbatim>\<open>while total_records > count:\<close> The server decides whether the loop ends, so the
  model counts the passes it may still make: with none left and the condition still
  true the outcome is \<open>None\<close>. An exception ends the loop with \<open>Inl\<close>.
\<close>

fun analysis_loop ::
  "nat \<Rightarrow> server \<Rightarrow> opts \<Rightarrow> loop_state \<Rightarrow> session \<Rightarrow> (error + json list) option \<times> session" where
  "analysis_loop 0 srv opts st s =
     (if total_records st > count st then (None, s) else (Some (Inr (outputs st)), s))"
| "analysis_loop (Suc n) srv opts st s =
     (if total_records st > count st then
        (case analysis_step srv opts st s of
           (Inl e, s1) \<Rightarrow> (Some (Inl e), s1)
         | (Inr st1, s1) \<Rightarrow> analysis_loop n srv opts st1 s1)
      else (Some (Inr (outputs st)), s))"

text \<open>
  \<^verbatim>\<open>
  output = []
  ...
  count = 0
  total_records = opts['page_size']
  while total_records > count:
      ...
  if len(output) > 0:
      return output
  \<close>
  A function that ends without \<^verbatim>\<open>return\<close> returns \<^verbatim>\<open>None\<close>.
\<close>

definition analysis_return :: "json list \<Rightarrow> json list option" where
  "analysis_return output = (if length output > 0 then Some output else None)"

definition analysis ::
  "nat \<Rightarrow> server \<Rightarrow> filter list \<Rightarrow> 'g kwargs \<Rightarrow> session
     \<Rightarrow> (error + json list option) option \<times> session" where
  "analysis fuel srv filters kw s =
     (let opts = analysis_opts kw in
      case analysis_kwargs filters kw of
        Inl e \<Rightarrow> (Some (Inl e), s)
      | Inr kwargs0 \<Rightarrow>
          (case analysis_loop fuel srv opts
                  \<lparr>kwargs = kwargs0, count = 0, total_records = page_size opts, outputs = []\<rparr> s of
             (None, s1) \<Rightarrow> (None, s1)
           | (Some (Inl e), s1) \<Rightarrow> (Some (Inl e), s1)
           | (Some (Inr out), s1) \<Rightarrow> (Some (Inr (analysis_return out)), s1)))"

section \<open>Observations and test servers\<close>

text \<open>
  The request that one pass of the loop sends, and the reading of \<^verbatim>\<open>query[k]\<close> in a
  request body and in \<^verbatim>\<open>kwargs\<close>.
\<close>

definition analysis_request :: "(string \<times> json) list \<Rightarrow> session \<Rightarrow> request" where
  "analysis_request kw s =
     \<lparr>meth = ''POST'', path = ''analysis'', req_headers = headers s, req_cookies = cookies s,
      payload = JsonPayload (JObj kw)\<rparr>"

definition request_query :: "request \<Rightarrow> error + json" where
  "request_query rq =
     (case payload rq of JsonPayload b \<Rightarrow> getitem b ''query'' | _ \<Rightarrow> Inl TypeError)"

definition query_item :: "request \<Rightarrow> string \<Rightarrow> error + json" where
  "query_item rq k = bind_err (request_query rq) (\<lambda>q. getitem q k)"

definition kwargs_query_item :: "(string \<times> json) list \<Rightarrow> string \<Rightarrow> error + json" where
  "kwargs_query_item kw k = bind_err (getitem (JObj kw) ''query'') (\<lambda>q. getitem q k)"

text \<open>The configured query type: the keyword \<^verbatim>\<open>type\<close>, or its default.\<close>

definition query_type :: "'g kwargs \<Rightarrow> json" where
  "query_type kw = (case kw_type kw of None \<Rightarrow> JStr ''vuln'' | Some t \<Rightarrow> t)"

text \<open>
  The filter list as the specification words it: one entry per filter tuple, in the same
  order, each with the tuple's three components and the query type.
\<close>

definition is_filter_list :: "filter list \<Rightarrow> json \<Rightarrow> json list \<Rightarrow> bool" where
  "is_filter_list filters ty fl \<longleftrightarrow>
     length fl = length filters
     \<and> (\<forall>i < length filters.
          fl ! i = JObj [(''filterName'', fst (filters ! i)),
                         (''operator'', fst (snd (filters ! i))),
                         (''value'', snd (snd (filters ! i))),
                         (''type'', ty)])"

text \<open>
  A reply to a page request: it passes the error check, the default transform finds
  \<open>n\<close> result items in it, and it reports \<open>tr\<close> records in all and the end offset
  \<open>e\<close>. A server serves pages of \<open>tr\<close> records when it answers every request for the
  records from \<open>a\<close> to \<open>b\<close> with such a reply: the end offset of the request, and the
  items from \<open>a\<close> up to \<open>b\<close> or up to the last record.
\<close>

definition page_reply :: "response \<Rightarrow> int \<Rightarrow> int \<Rightarrow> nat \<Rightarrow> bool" where
  "page_reply r tr e n \<longleftrightarrow>
     resp_error_check r = Inr r
     \<and> (case return_results [] r of Inr (PyList items) \<Rightarrow> length items = n | _ \<Rightarrow> False)
     \<and> response_int r ''totalRecords'' = Inr tr
     \<and> response_int r ''endOffset'' = Inr e"

definition serves_pages :: "server \<Rightarrow> int \<Rightarrow> bool" where
  "serves_pages srv tr \<longleftrightarrow>
     (\<forall>hist rq a b.
        query_item rq ''startOffset'' = Inr (JInt a) \<and> query_item rq ''endOffset'' = Inr (JInt b)
        \<longrightarrow> (\<exists>r. srv (hist @ [rq]) = Inr r \<and> page_reply r tr b (nat (min b tr - a))))"

text \<open>
  A sequence, as the specification words the result of a transform: an object with
  elements in an order, which a list is and a tuple is too.
\<close>

fun is_sequence :: "pyout \<Rightarrow> bool" where
  "is_sequence (PyList items) = True"
| "is_sequence (PyTuple items) = True"
| "is_sequence PyOther = False"

text \<open>The four fields the constructor reads from the status response.\<close>

definition identity_fields :: "string list" where
  "identity_fields = [''version'', ''buildID'', ''licenseStatus'', ''uuid'']"

text \<open>
  Servers to run the client against: one that serves pages of \<open>tr\<close> records, a host
  without a listener, one that sends the same JSON document every time, and one whose
  body is not JSON.
\<close>

definition paged_server :: "int \<Rightarrow> server" where
  "paged_server tr hist =
     (if hist = [] then Inl (OtherError ''no request'')
      else
        (case (query_item (last hist) ''startOffset'', query_item (last hist) ''endOffset'') of
           (Inr (JInt a), Inr (JInt b)) \<Rightarrow>
             Inr \<lparr>body = Some (JObj
                    [(''response'', JObj
                        [(''totalRecords'', JInt tr), (''startOffset'', JInt a),
                         (''endOffset'', JInt b),
                         (''results'', JArr (replicate (nat (min b tr - a)) JNull))]),
                     (''error_code'', JInt 0), (''error_msg'', JStr [])]),
                  set_cookie = []\<rparr>
         | _ \<Rightarrow> Inl (OtherError ''no offsets'')))"

definition no_listener :: server where
  "no_listener hist = Inl (OtherError ''connection refused'')"

definition fixed_server :: "json \<Rightarrow> server" where
  "fixed_server d hist = Inr \<lparr>body = Some d, set_cookie = []\<rparr>"

definition html_server :: server where
  "html_server hist = Inr \<lparr>body = None, set_cookie = []\<rparr>"

text \<open>Sessions, replies and calls for the examples.\<close>

definition empty_session :: session where
  "empty_session = \<lparr>headers = [], cookies = [], sent = []\<rparr>"

definition logged_in :: session where
  "logged_in = \<lparr>headers = [(''X-SecurityCenter'', JStr ''abc123'')],
                cookies = [(''TNS_SESSIONID'', ''c0ffee'')], sent = []\<rparr>"

definition demo_reply :: "json list \<Rightarrow> json" where
  "demo_reply items =
     JObj [(''response'', JObj [(''totalRecords'', JStr ''2''), (''endOffset'', JStr ''2''),
                                (''results'', JArr items)]),
           (''error_code'', JInt 0), (''error_msg'', JStr [])]"

definition demo_status :: json where
  "demo_status =
     JObj [(''response'',
            JObj [(''version'', JStr ''5.6.0''), (''buildID'', JStr ''42''),
                  (''licenseStatus'', JStr ''Valid''), (''uuid'', JStr ''u-1'')]),
           (''error_code'', JInt 0)]"

definition demo_filters :: "filter list" where
  "demo_filters = [(JStr ''ip'', JStr ''='', JStr ''10.10.0.0/16''),
                   (JStr ''severity'', JStr ''>='', JStr ''3'')]"

definition all_kwargs :: "unit kwargs" where
  "all_kwargs =
     \<lparr>kw_page = None, kw_page_size = None, kw_page_obj = None,
      kw_page_kwargs = None, kw_type = None, kw_sourceType = None, kw_generator = None,
      kw_tool = Some (JStr ''sumip''), kw_query = None, kw_rest = []\<rparr>"

definition page_kwargs_2_500 :: "unit kwargs" where
  "page_kwargs_2_500 = all_kwargs\<lparr>kw_page := Some (PageNo 2), kw_page_size := Some 500\<rparr>"

definition no_tool_kwargs :: "unit kwargs" where
  "no_tool_kwargs = all_kwargs\<lparr>kw_tool := None\<rparr>"

definition return_tuple :: transform where
  "return_tuple kw resp = Inr (PyTuple [JInt 7, JInt 8])"

definition custom_kwargs :: "unit kwargs" where
  "custom_kwargs =
     page_kwargs_2_500\<lparr>kw_tool := None, kw_query := Some [(''id'', JStr ''5'')]\<rparr>"

definition demo_opts :: "transform \<Rightarrow> opts" where
  "demo_opts f =
     \<lparr>page = PageNo 0, page_size = 2, page_obj = f, page_kwargs = [], generator = None\<rparr>"

definition demo_state :: loop_state where
  "demo_state =
     \<lparr>kwargs = [(''query'', JObj [])], count = 0, total_records = 2, outputs = [JInt 1]\<rparr>"

section \<open>Basic facts\<close>

lemma bind_err_simps:
  "bind_err (Inl e) f = Inl e" "bind_err (Inr x) f = f x"
  by (simp_all add: bind_err_def)

lemma bind_err_Inr_iff:
  "bind_err m f = Inr y \<longleftrightarrow> (\<exists>x. m = Inr x \<and> f x = Inr y)"
  by (cases m) (simp_all add: bind_err_def)

lemma getitem_raises: "getitem d k = Inl e \<Longrightarrow> e = KeyError k \<or> e = TypeError"
  by (cases d) (auto split: option.splits)

lemma map_of_dict_set:
  "map_of (dict_set kvs k v) k' = (if k' = k then Some v else map_of kvs k')"
  by (induction kvs) auto

lemmas error_check_defs =
  resp_error_check_def error_check_body_def resp_json_def bind_err_def

lemma api_request_sent:
  "api_request srv m p pl s = (r, s') \<Longrightarrow>
     sent s' = sent s @ [\<lparr>meth = m, path = p, req_headers = headers s,
                         req_cookies = cookies s, payload = pl\<rparr>]
     \<and> headers s' = headers s"
  by (auto simp add: api_request_def Let_def split: sum.splits)

lemma api_request_no_listener:
  "fst (api_request no_listener m p pl s) = Inl (OtherError ''connection refused'')"
  by (simp add: api_request_def no_listener_def Let_def)

lemma api_request_fixed_ok:
  "getitem d ''error_code'' = Inr (JInt 0) \<Longrightarrow>
     fst (api_request (fixed_server d) m p pl s) = Inr \<lparr>body = Some d, set_cookie = []\<rparr>"
  by (simp add: api_request_def fixed_server_def Let_def error_check_defs)

lemma int_of_str_2: "int_of_str ''2'' = Inr 2"
  by (simp add: int_of_str_def strip_def is_space_def is_digit_def digits_value_def)

lemmas model_defs =
  analysis_def analysis_kwargs_def analysis_opts_def build_query_def analysis_step_def
  api_request_def fixed_server_def error_check_defs return_results_def response_int_def
  response_item_def append_items_def analysis_return_def filter_entry_def set_query_item_def
  Let_def

lemmas demo_defs =
  demo_reply_def demo_filters_def all_kwargs_def page_kwargs_2_500_def custom_kwargs_def
  no_tool_kwargs_def return_tuple_def empty_session_def demo_opts_def demo_state_def

section \<open>The response error check\<close>

text \<open>
  C1, as stated, fails: a body that is JSON but has no \<^verbatim>\<open>error_code\<close> key is not
  passed through. The lookup \<^verbatim>\<open>d['error_code']\<close> raises a \<^verbatim>\<open>KeyError\<close>, which the
  handler for \<^verbatim>\<open>ValueError\<close> does not catch.
\<close>

theorem resp_error_check_without_code:
  "body \<lparr>body = Some (JObj [(''response'', JObj [])]), set_cookie = []\<rparr>
     = Some (JObj [(''response'', JObj [])])
   \<and> resp_error_check \<lparr>body = Some (JObj [(''response'', JObj [])]), set_cookie = []\<rparr>
     = Inl (KeyError ''error_code'')"
  by (simp add: error_check_defs)

text \<open>
  C1, amended: the check raises an \<^verbatim>\<open>APIError\<close> with the body's \<^verbatim>\<open>error_code\<close> and
  \<^verbatim>\<open>error_msg\<close> exactly when the body is a JSON object that has a truthy
  \<^verbatim>\<open>error_code\<close> and an \<^verbatim>\<open>error_msg\<close>; it returns a response exactly when the body
  is not JSON or is a JSON object whose \<^verbatim>\<open>error_code\<close> is there and falsy, and the
  response it returns is the one it was given.
\<close>

theorem resp_error_check_cases:
  "(resp_error_check r = Inl (APIError c m) \<longleftrightarrow>
      (\<exists>d. body r = Some d \<and> getitem d ''error_code'' = Inr c \<and> truthy c
           \<and> getitem d ''error_msg'' = Inr m))
   \<and> (resp_error_check r = Inr r' \<longleftrightarrow>
      r' = r \<and> (body r = None
               \<or> (\<exists>d c. body r = Some d \<and> getitem d ''error_code'' = Inr c \<and> \<not> truthy c)))"
proof (cases "body r")
  case None
  then show ?thesis
    by (auto simp add: error_check_defs)
next
  case (Some d)
  show ?thesis
  proof (cases "getitem d ''error_code''")
    case (Inl e)
    with Some getitem_raises[of d "''error_code''" e] show ?thesis
      by (auto simp add: error_check_defs)
  next
    case (Inr code)
    note code = this
    show ?thesis
    proof (cases "truthy code")
      case False
      with Some code show ?thesis
        by (auto simp add: error_check_defs)
    next
      case True
      show ?thesis
      proof (cases "getitem d ''error_msg''")
        case (Inl e)
        with Some code True getitem_raises[of d "''error_msg''" e] show ?thesis
          by (auto simp add: error_check_defs)
      next
        case (Inr msg)
        with Some code True show ?thesis
          by (auto simp add: error_check_defs)
      qed
    qed
  qed
qed

text \<open>
  The three bodies the specification tests: code 1 with message \<^verbatim>\<open>bad\<close> raises,
  code 0 passes, a body that is not JSON passes.
\<close>

theorem resp_error_check_cases_witness:
  "resp_error_check
     \<lparr>body = Some (JObj [(''error_code'', JInt 1), (''error_msg'', JStr ''bad'')]), set_cookie = []\<rparr>
     = Inl (APIError (JInt 1) (JStr ''bad''))
   \<and> resp_error_check
       \<lparr>body = Some (JObj [(''error_code'', JInt 0), (''error_msg'', JStr '''')]), set_cookie = []\<rparr>
     = Inr \<lparr>body = Some (JObj [(''error_code'', JInt 0), (''error_msg'', JStr '''')]), set_cookie = []\<rparr>
   \<and> resp_error_check \<lparr>body = None, set_cookie = []\<rparr> = Inr \<lparr>body = None, set_cookie = []\<rparr>"
  using
    resp_error_check_cases
      [of "\<lparr>body = Some (JObj [(''error_code'', JInt 1), (''error_msg'', JStr ''bad'')]), set_cookie = []\<rparr>"
          "JInt 1" "JStr ''bad''"]
    resp_error_check_cases
      [of "\<lparr>body = Some (JObj [(''error_code'', JInt 0), (''error_msg'', JStr '''')]), set_cookie = []\<rparr>"
          _ _
          "\<lparr>body = Some (JObj [(''error_code'', JInt 0), (''error_msg'', JStr '''')]), set_cookie = []\<rparr>"]
    resp_error_check_cases [of "\<lparr>body = None, set_cookie = []\<rparr>" _ _ "\<lparr>body = None, set_cookie = []\<rparr>"]
  by simp

section \<open>Construction\<close>

lemma init_identity_Inr:
  "init_identity d = Inr (v, b, l, u) \<longleftrightarrow>
     response_item d ''version'' = Inr v \<and> response_item d ''buildID'' = Inr b
     \<and> response_item d ''licenseStatus'' = Inr l \<and> response_item d ''uuid'' = Inr u"
  by (auto simp add: init_identity_def bind_err_Inr_iff)

lemma init_identity_Inl:
  assumes "k \<in> set identity_fields" "\<forall>v. response_item d k \<noteq> Inr v"
  shows "\<exists>e. init_identity d = Inl e"
proof (cases "init_identity d")
  case (Inl e)
  then show ?thesis by blast
next
  case (Inr t)
  obtain v b l u where "t = (v, b, l, u)" by (cases t) auto
  with Inr assms show ?thesis
    by (auto simp add: init_identity_Inr identity_fields_def)
qed

text \<open>
  C8, as stated, fails: when the status call succeeds and the body of the response is
  not JSON, the response lacks the four fields, yet the constructor raises the error of
  the first handler, the one that names the host, because \<^verbatim>\<open>.json()\<close> is inside the
  first \<^verbatim>\<open>try\<close>.
\<close>

theorem init_body_not_json:
  "fst (api_request html_server ''GET'' ''system'' NoPayload new_session)
     = Inr \<lparr>body = None, set_cookie = []\<rparr>
   \<and> init html_server ''sc.example.org'' 443 ''https''
     = Inl (ServerError ''No SecurityCenter Instance at sc.example.org'')"
  by (simp add: init_def api_request_def html_server_def new_session_def build_session_def
      Let_def error_check_defs)

text \<open>
  C8, amended: when the status call raises, or its response has a body that is not JSON,
  the constructor raises a \<^verbatim>\<open>ServerError\<close> whose message names the host. When the body
  is JSON and one of \<^verbatim>\<open>version\<close>, \<^verbatim>\<open>buildID\<close>, \<^verbatim>\<open>licenseStatus\<close>, \<^verbatim>\<open>uuid\<close> cannot be
  read inside \<^verbatim>\<open>response\<close>, it raises a \<^verbatim>\<open>ServerError\<close> with another message. When
  all four can be read they are stored as \<open>version\<close>, \<open>build_id\<close>, \<open>license\<close> and
  \<open>uuid\<close>.
\<close>

theorem init_outcomes:
  "((fst (api_request srv ''GET'' ''system'' NoPayload new_session) = Inl e
       \<or> (fst (api_request srv ''GET'' ''system'' NoPayload new_session) = Inr resp
            \<and> body resp = None)) \<longrightarrow>
      init srv host port scheme = Inl (ServerError (''No SecurityCenter Instance at '' @ host)))
   \<and> (fst (api_request srv ''GET'' ''system'' NoPayload new_session) = Inr resp
        \<and> body resp = Some d
        \<and> (\<exists>k \<in> set identity_fields. \<forall>v. response_item d k \<noteq> Inr v) \<longrightarrow>
      init srv host port scheme = Inl (ServerError ''Invalid SecurityCenter Instance'')
      \<and> ServerError ''Invalid SecurityCenter Instance''
          \<noteq> ServerError (''No SecurityCenter Instance at '' @ host))
   \<and> (fst (api_request srv ''GET'' ''system'' NoPayload new_session) = Inr resp
        \<and> body resp = Some d
        \<and> response_item d ''version'' = Inr v \<and> response_item d ''buildID'' = Inr b
        \<and> response_item d ''licenseStatus'' = Inr l \<and> response_item d ''uuid'' = Inr u \<longrightarrow>
      (\<exists>sc. init srv host port scheme = Inr sc
         \<and> version sc = v \<and> build_id sc = b \<and> license sc = l \<and> uuid sc = u))"
proof (intro conjI impI)
  assume "fst (api_request srv ''GET'' ''system'' NoPayload new_session) = Inl e
       \<or> (fst (api_request srv ''GET'' ''system'' NoPayload new_session) = Inr resp
            \<and> body resp = None)"
  then show "init srv host port scheme = Inl (ServerError (''No SecurityCenter Instance at '' @ host))"
    by (cases "api_request srv ''GET'' ''system'' NoPayload new_session")
      (auto simp add: init_def Let_def resp_json_def)
next
  assume a: "fst (api_request srv ''GET'' ''system'' NoPayload new_session) = Inr resp
        \<and> body resp = Some d
        \<and> (\<exists>k \<in> set identity_fields. \<forall>v. response_item d k \<noteq> Inr v)"
  then obtain e where "init_identity d = Inl e"
    using init_identity_Inl by blast
  with a show "init srv host port scheme = Inl (ServerError ''Invalid SecurityCenter Instance'')"
    by (cases "api_request srv ''GET'' ''system'' NoPayload new_session")
      (simp add: init_def Let_def resp_json_def)
next
  show "ServerError ''Invalid SecurityCenter Instance''
          \<noteq> ServerError (''No SecurityCenter Instance at '' @ host)"
    by simp
next
  assume a: "fst (api_request srv ''GET'' ''system'' NoPayload new_session) = Inr resp
        \<and> body resp = Some d
        \<and> response_item d ''version'' = Inr v \<and> response_item d ''buildID'' = Inr b
        \<and> response_item d ''licenseStatus'' = Inr l \<and> response_item d ''uuid'' = Inr u"
  then have "init_identity d = Inr (v, b, l, u)"
    by (simp add: init_identity_Inr)
  with a show "\<exists>sc. init srv host port scheme = Inr sc
         \<and> version sc = v \<and> build_id sc = b \<and> license sc = l \<and> uuid sc = u"
    by (cases "api_request srv ''GET'' ''system'' NoPayload new_session")
      (simp add: init_def Let_def resp_json_def)
qed

text \<open>
  A host without a listener, a server whose status lacks \<^verbatim>\<open>version\<close>, and a server
  with a full status.
\<close>

theorem init_outcomes_witness:
  "init no_listener ''sc.example.org'' 443 ''https''
     = Inl (ServerError ''No SecurityCenter Instance at sc.example.org'')
   \<and> init (fixed_server (JObj [(''response'', JObj [(''buildID'', JStr ''42'')]),
                               (''error_code'', JInt 0)]))
        ''sc.example.org'' 443 ''https''
     = Inl (ServerError ''Invalid SecurityCenter Instance'')
   \<and> (\<exists>sc. init (fixed_server demo_status) ''sc.example.org'' 443 ''https'' = Inr sc
        \<and> version sc = JStr ''5.6.0'' \<and> build_id sc = JStr ''42''
        \<and> license sc = JStr ''Valid'' \<and> uuid sc = JStr ''u-1'')"
  using
    init_outcomes[of no_listener "OtherError ''connection refused''" _ "''sc.example.org''"
      443 "''https''"]
    init_outcomes[of "fixed_server (JObj [(''response'', JObj [(''buildID'', JStr ''42'')]),
                                         (''error_code'', JInt 0)])"
      _
      "\<lparr>body = Some (JObj [(''response'', JObj [(''buildID'', JStr ''42'')]),
                          (''error_code'', JInt 0)]), set_cookie = []\<rparr>"
      "''sc.example.org''" 443 "''https''"
      "JObj [(''response'', JObj [(''buildID'', JStr ''42'')]), (''error_code'', JInt 0)]"]
    init_outcomes[of "fixed_server demo_status" _ "\<lparr>body = Some demo_status, set_cookie = []\<rparr>"
      "''sc.example.org''" 443 "''https''" demo_status
      "JStr ''5.6.0''" "JStr ''42''" "JStr ''Valid''" "JStr ''u-1''"]
  by (simp add: api_request_no_listener api_request_fixed_ok identity_fields_def
      response_item_def bind_err_def demo_status_def)

section \<open>Logout\<close>

lemma logout_rebuilds:
  assumes "fst (api_request srv ''DELETE'' ''token'' NoPayload s) = Inr resp"
  shows "fst (logout srv s) = Inr ()
       \<and> headers (snd (logout srv s)) = [] \<and> cookies (snd (logout srv s)) = []"
  using assms
  by (cases "api_request srv ''DELETE'' ''token'' NoPayload s")
    (simp add: logout_def build_session_def)

text \<open>
  C2: the docstring of \<^verbatim>\<open>logout\<close> says that it removes the cookies and the token, and
  the method rebuilds the session right after the \<^verbatim>\<open>DELETE\<close>. The rebuild is not
  protected, though: when the body of the answer to the \<^verbatim>\<open>DELETE\<close> has a truthy
  \<^verbatim>\<open>error_code\<close>, the error check raises inside \<^verbatim>\<open>self.delete\<close>, \<^verbatim>\<open>logout\<close> ends
  with that \<^verbatim>\<open>APIError\<close>, and the token and the cookie are still in the session.
\<close>

theorem logout_keeps_token_on_error:
  "fst (logout (fixed_server (JObj [(''error_code'', JInt 1), (''error_msg'', JStr ''bad'')]))
          logged_in)
     = Inl (APIError (JInt 1) (JStr ''bad''))
   \<and> map_of (headers (snd (logout (fixed_server
         (JObj [(''error_code'', JInt 1), (''error_msg'', JStr ''bad'')])) logged_in)))
       ''X-SecurityCenter'' = Some (JStr ''abc123'')
   \<and> cookies (snd (logout (fixed_server
         (JObj [(''error_code'', JInt 1), (''error_msg'', JStr ''bad'')])) logged_in))
       = [(''TNS_SESSIONID'', ''c0ffee'')]"
  by (simp add: logout_def api_request_def fixed_server_def logged_in_def Let_def error_check_defs)

section \<open>The analysis loop\<close>

subsection \<open>Requests of one pass and of the loop\<close>

lemma analysis_request_post:
  "meth (analysis_request kw s) = ''POST'' \<and> path (analysis_request kw s) = ''analysis''"
  by (simp add: analysis_request_def)

lemma query_item_analysis_request:
  "query_item (analysis_request kw s) k = kwargs_query_item kw k"
  by (simp add: query_item_def request_query_def analysis_request_def kwargs_query_item_def)

lemma analysis_step_sent:
  "analysis_step srv opts st s = (r, s') \<Longrightarrow>
     sent s' = sent s @ [analysis_request (kwargs st) s] \<and> headers s' = headers s"
  by (auto simp add: analysis_step_def analysis_request_def split: prod.splits sum.splits
      dest!: api_request_sent)

lemma analysis_loop_done:
  "\<not> total_records st > count st \<Longrightarrow>
     analysis_loop n srv opts st s = (Some (Inr (outputs st)), s)"
  by (cases n) auto

lemma analysis_loop_more_fuel:
  "analysis_loop n srv opts st s = (Some r, s') \<Longrightarrow>
     analysis_loop (n + k) srv opts st s = (Some r, s')"
proof (induction n arbitrary: st s)
  case 0
  then have "\<not> total_records st > count st" by (auto split: if_splits)
  from analysis_loop_done[OF this] 0 show ?case by simp
next
  case (Suc n)
  show ?case
  proof (cases "total_records st > count st")
    case False
    from analysis_loop_done[OF this] Suc.prems show ?thesis by simp
  next
    case True
    obtain r1 s1 where step: "analysis_step srv opts st s = (r1, s1)"
      by (cases "analysis_step srv opts st s")
    show ?thesis
    proof (cases r1)
      case (Inl e)
      with Suc.prems True step show ?thesis by simp
    next
      case (Inr st1)
      with Suc.prems True step have "analysis_loop n srv opts st1 s1 = (Some r, s')" by simp
      from Suc.IH[OF this] True step Inr show ?thesis by simp
    qed
  qed
qed

lemma analysis_loop_sent:
  "analysis_loop n srv opts st s = (r, s') \<Longrightarrow> \<exists>rqs. sent s' = sent s @ rqs"
proof (induction n arbitrary: st s)
  case 0
  then show ?case by (auto split: if_splits)
next
  case (Suc n)
  show ?case
  proof (cases "total_records st > count st")
    case False
    with Suc.prems show ?thesis by auto
  next
    case True
    obtain r1 s1 where step: "analysis_step srv opts st s = (r1, s1)"
      by (cases "analysis_step srv opts st s")
    from analysis_step_sent[OF step]
    have s1: "sent s1 = sent s @ [analysis_request (kwargs st) s]" by simp
    show ?thesis
    proof (cases r1)
      case (Inl e)
      with Suc.prems True step s1 show ?thesis by auto
    next
      case (Inr st1)
      with Suc.prems True step have "analysis_loop n srv opts st1 s1 = (r, s')" by simp
      from Suc.IH[OF this] s1 show ?thesis by auto
    qed
  qed
qed

lemma analysis_loop_first:
  assumes "total_records st > count st" "analysis_loop (Suc n) srv opts st s = (r, s')"
  shows "\<exists>rqs. sent s' = sent s @ analysis_request (kwargs st) s # rqs"
proof -
  obtain r1 s1 where step: "analysis_step srv opts st s = (r1, s1)"
    by (cases "analysis_step srv opts st s")
  from analysis_step_sent[OF step]
  have s1: "sent s1 = sent s @ [analysis_request (kwargs st) s]" by simp
  show ?thesis
  proof (cases r1)
    case (Inl e)
    with assms step s1 show ?thesis by auto
  next
    case (Inr st1)
    with assms step have "analysis_loop n srv opts st1 s1 = (r, s')" by simp
    from analysis_loop_sent[OF this] s1 show ?thesis by auto
  qed
qed

lemma analysis_kwargs_ok:
  "kw_tool kw \<noteq> None \<or> kw_query kw \<noteq> None \<Longrightarrow> \<exists>kw0. analysis_kwargs filters kw = Inr kw0"
  by (auto simp add: analysis_kwargs_def Let_def split: option.splits)

lemma analysis_step_page:
  "page opts = PageNo p \<Longrightarrow> analysis_step srv opts st s = (Inr st', s') \<Longrightarrow>
     count st' = total_records st' \<and> kwargs st' = kwargs st"
  by (auto simp add: analysis_step_def bind_err_def split: prod.splits sum.splits)

lemma analysis_loop_page:
  assumes "page opts = PageNo p" "total_records st > count st"
  shows "\<exists>r s'. analysis_loop (Suc n) srv opts st s = (Some r, s')
           \<and> sent s' = sent s @ [analysis_request (kwargs st) s]"
proof -
  obtain r1 s1 where step: "analysis_step srv opts st s = (r1, s1)"
    by (cases "analysis_step srv opts st s")
  from analysis_step_sent[OF step]
  have s1: "sent s1 = sent s @ [analysis_request (kwargs st) s]" by simp
  show ?thesis
  proof (cases r1)
    case (Inl e)
    with assms step s1 show ?thesis by auto
  next
    case (Inr st1)
    with analysis_step_page[OF assms(1)] step have "\<not> total_records st1 > count st1" by auto
    from analysis_loop_done[OF this] Inr assms step s1 show ?thesis by auto
  qed
qed

subsection \<open>The query inside \<^verbatim>\<open>kwargs\<close>\<close>

lemma kwargs_query_item_Inr:
  assumes "kwargs_query_item kw k = Inr v"
  shows "\<exists>q. map_of kw ''query'' = Some (JObj q) \<and> map_of q k = Some v"
proof -
  from assms obtain qq where qq: "getitem (JObj kw) ''query'' = Inr qq" "getitem qq k = Inr v"
    by (auto simp add: kwargs_query_item_def bind_err_Inr_iff)
  from qq(2) obtain q where "qq = JObj q" by (cases qq) auto
  with qq show ?thesis by (auto split: option.splits)
qed

lemma set_query_item_ok:
  assumes "kwargs_query_item kw k = Inr v"
  shows "\<exists>kw'. set_query_item kw k' v' = Inr kw'
           \<and> (\<forall>k''. kwargs_query_item kw' k''
                      = (if k'' = k' then Inr v' else kwargs_query_item kw k''))"
proof -
  from kwargs_query_item_Inr[OF assms] obtain q where
    q: "map_of kw ''query'' = Some (JObj q)" by blast
  then have "set_query_item kw k' v' = Inr (dict_set kw ''query'' (JObj (dict_set q k' v')))"
    by (simp add: set_query_item_def)
  moreover have "\<forall>k''. kwargs_query_item (dict_set kw ''query'' (JObj (dict_set q k' v'))) k''
      = (if k'' = k' then Inr v' else kwargs_query_item kw k'')"
    using q by (simp add: kwargs_query_item_def bind_err_def map_of_dict_set)
  ultimately show ?thesis by blast
qed

lemma set_query_item_other:
  assumes "set_query_item kw k v = Inr kw'" "k' \<noteq> k"
  shows "kwargs_query_item kw' k' = kwargs_query_item kw k'"
proof -
  from assms(1) obtain q where q: "map_of kw ''query'' = Some (JObj q)"
    and kw': "kw' = dict_set kw ''query'' (JObj (dict_set q k v))"
    by (auto simp add: set_query_item_def split: option.splits json.splits)
  with assms(2) show ?thesis
    by (simp add: kwargs_query_item_def bind_err_def map_of_dict_set)
qed

lemma analysis_kwargs_filters:
  assumes "kw_query kw = None" "analysis_kwargs filters kw = Inr kw0"
  shows "kwargs_query_item kw0 ''filters'' = Inr (JArr (map (filter_entry (query_type kw)) filters))"
  using assms
  by (cases "page (analysis_opts kw)")
    (auto simp add: analysis_kwargs_def Let_def kwargs_query_item_def bind_err_def
      map_of_dict_set build_query_def query_type_def split: option.splits)

lemma analysis_kwargs_all:
  assumes "kw_page kw = None \<or> kw_page kw = Some AllPages"
    and "kw_query kw = None" and "kw_tool kw = Some tool"
  shows "\<exists>kw0. analysis_kwargs filters kw = Inr kw0
           \<and> kwargs_query_item kw0 ''startOffset'' = Inr (JInt 0)
           \<and> kwargs_query_item kw0 ''endOffset'' = Inr (JInt (page_size (analysis_opts kw)))"
  using assms
  by (auto simp add: analysis_kwargs_def Let_def kwargs_query_item_def bind_err_def
      map_of_dict_set build_query_def analysis_opts_def)

lemma analysis_kwargs_offsets:
  assumes "kw_query kw = None" "analysis_kwargs filters kw = Inr kw0"
    "kw_page kw = Some (PageNo p)" "kw_page_size kw = Some sz"
  shows "kwargs_query_item kw0 ''startOffset'' = Inr (JInt (p * sz))
       \<and> kwargs_query_item kw0 ''endOffset'' = Inr (JInt ((p + 1) * sz))"
  using assms
  by (auto simp add: analysis_kwargs_def Let_def kwargs_query_item_def bind_err_def
      map_of_dict_set build_query_def analysis_opts_def split: option.splits)

lemma analysis_kwargs_custom:
  assumes "kw_query kw = Some q" "analysis_kwargs filters kw = Inr kw0"
  shows "request_query (analysis_request kw0 s) = Inr (JObj q)"
  using assms
  by (auto simp add: analysis_kwargs_def Let_def request_query_def analysis_request_def
      map_of_dict_set)

lemma analysis_step_filters:
  assumes "analysis_step srv opts st s = (Inr st', s')"
  shows "kwargs_query_item (kwargs st') ''filters'' = kwargs_query_item (kwargs st) ''filters''"
proof (cases "page opts")
  case AllPages
  with assms obtain cnt kw1 where
    "set_query_item (kwargs st) ''startOffset'' (JInt cnt) = Inr kw1"
    "set_query_item kw1 ''endOffset'' (JInt (cnt + page_size opts)) = Inr (kwargs st')"
    by (auto simp add: analysis_step_def bind_err_Inr_iff split: prod.splits sum.splits)
  then show ?thesis
    using set_query_item_other[of "kwargs st" "''startOffset''" _ kw1 "''filters''"]
      set_query_item_other[of kw1 "''endOffset''" _ "kwargs st'" "''filters''"]
    by simp
next
  case (PageNo p)
  with analysis_step_page[OF PageNo assms] show ?thesis by simp
qed

lemma analysis_loop_filters:
  assumes "analysis_loop n srv opts st s = (r, s')"
  shows "\<exists>rqs. sent s' = sent s @ rqs
           \<and> (\<forall>rq \<in> set rqs.
                query_item rq ''filters'' = kwargs_query_item (kwargs st) ''filters'')"
  using assms
proof (induction n arbitrary: st s)
  case 0
  then show ?case by (auto split: if_splits)
next
  case (Suc n)
  show ?case
  proof (cases "total_records st > count st")
    case False
    with Suc.prems show ?thesis by auto
  next
    case True
    obtain r1 s1 where step: "analysis_step srv opts st s = (r1, s1)"
      by (cases "analysis_step srv opts st s")
    let ?rq = "analysis_request (kwargs st) s"
    from analysis_step_sent[OF step] have s1: "sent s1 = sent s @ [?rq]" by simp
    have rq: "query_item ?rq ''filters'' = kwargs_query_item (kwargs st) ''filters''"
      by (simp add: query_item_analysis_request)
    show ?thesis
    proof (cases r1)
      case (Inl e)
      with Suc.prems True step have "s' = s1" by simp
      with s1 rq show ?thesis by simp
    next
      case (Inr st1)
      with Suc.prems True step have "analysis_loop n srv opts st1 s1 = (r, s')" by simp
      from Suc.IH[OF this] obtain rqs where
        rqs: "sent s' = sent s1 @ rqs"
          "\<forall>rq \<in> set rqs.
             query_item rq ''filters'' = kwargs_query_item (kwargs st1) ''filters''"
        by blast
      from analysis_step_filters step Inr
      have "kwargs_query_item (kwargs st1) ''filters'' = kwargs_query_item (kwargs st) ''filters''"
        by simp
      with rqs s1 rq show ?thesis
        by (intro exI[of _ "?rq # rqs"]) simp
    qed
  qed
qed

lemma is_filter_list_map: "is_filter_list filters ty (map (filter_entry ty) filters)"
  by (simp add: is_filter_list_def filter_entry_def split: prod.splits)

subsection \<open>Building the filter list\<close>

text \<open>
  C5: when the caller gives no query body, the query that \<open>analysis\<close> builds, and the
  query of every request it then sends, has a filter list with one entry per filter
  tuple, in the order of the tuples, each made of the tuple's field, operator and value
  and of the one configured query type.
\<close>

theorem analysis_filters:
  assumes "kw_query kw = None"
  shows "(analysis_kwargs filters kw = Inr kw0 \<longrightarrow>
            (\<exists>fl. kwargs_query_item kw0 ''filters'' = Inr (JArr fl)
                \<and> is_filter_list filters (query_type kw) fl))
       \<and> (\<exists>rqs. sent (snd (analysis n srv filters kw s)) = sent s @ rqs
            \<and> (\<forall>rq \<in> set rqs. \<exists>fl.
                  query_item rq ''filters'' = Inr (JArr fl)
                \<and> is_filter_list filters (query_type kw) fl))"
proof (intro conjI impI)
  assume "analysis_kwargs filters kw = Inr kw0"
  from analysis_kwargs_filters[OF assms this] is_filter_list_map
  show "\<exists>fl. kwargs_query_item kw0 ''filters'' = Inr (JArr fl)
                \<and> is_filter_list filters (query_type kw) fl"
    by blast
next
  show "\<exists>rqs. sent (snd (analysis n srv filters kw s)) = sent s @ rqs
            \<and> (\<forall>rq \<in> set rqs. \<exists>fl.
                  query_item rq ''filters'' = Inr (JArr fl)
                \<and> is_filter_list filters (query_type kw) fl)"
  proof (cases "analysis_kwargs filters kw")
    case (Inl e)
    then have "snd (analysis n srv filters kw s) = s" by (simp add: analysis_def Let_def)
    then show ?thesis by simp
  next
    case (Inr kw1)
    let ?st = "\<lparr>kwargs = kw1, count = 0, total_records = page_size (analysis_opts kw),
                outputs = []\<rparr>"
    obtain r1 s1 where loop: "analysis_loop n srv (analysis_opts kw) ?st s = (r1, s1)"
      by (cases "analysis_loop n srv (analysis_opts kw) ?st s")
    with Inr have "snd (analysis n srv filters kw s) = s1"
      by (auto simp add: analysis_def Let_def split: option.splits sum.splits)
    with analysis_loop_filters[OF loop] analysis_kwargs_filters[OF assms Inr]
    obtain rqs where rqs: "sent (snd (analysis n srv filters kw s)) = sent s @ rqs"
      "\<forall>rq \<in> set rqs.
         query_item rq ''filters'' = Inr (JArr (map (filter_entry (query_type kw)) filters))"
      by auto
    with is_filter_list_map show ?thesis
      by (intro exI[of _ rqs]) blast
  qed
qed

text \<open>Two filters and the default query type \<^verbatim>\<open>vuln\<close>.\<close>

theorem analysis_filters_witness:
  "\<exists>kw0 fl. analysis_kwargs demo_filters all_kwargs = Inr kw0
      \<and> kwargs_query_item kw0 ''filters'' = Inr (JArr fl)
      \<and> length fl = 2
      \<and> fl ! 0 = JObj [(''filterName'', JStr ''ip''), (''operator'', JStr ''=''),
                       (''value'', JStr ''10.10.0.0/16''), (''type'', JStr ''vuln'')]
      \<and> fl ! 1 = JObj [(''filterName'', JStr ''severity''), (''operator'', JStr ''>=''),
                       (''value'', JStr ''3''), (''type'', JStr ''vuln'')]"
proof -
  have q: "kw_query all_kwargs = None" by (simp add: all_kwargs_def)
  obtain kw0 where kw0: "analysis_kwargs demo_filters all_kwargs = Inr kw0"
    using analysis_kwargs_ok[of all_kwargs demo_filters] by (auto simp add: all_kwargs_def)
  from analysis_filters[OF q, of demo_filters kw0] kw0 obtain fl where
    fl: "kwargs_query_item kw0 ''filters'' = Inr (JArr fl)"
      "is_filter_list demo_filters (query_type all_kwargs) fl"
    by blast
  from fl(2) have "length fl = 2"
    and "\<forall>i<2. fl ! i = JObj [(''filterName'', fst (demo_filters ! i)),
                         (''operator'', fst (snd (demo_filters ! i))),
                         (''value'', snd (snd (demo_filters ! i))),
                         (''type'', JStr ''vuln'')]"
    by (simp_all add: is_filter_list_def demo_filters_def query_type_def all_kwargs_def)
  then have "length fl = 2
      \<and> fl ! 0 = JObj [(''filterName'', JStr ''ip''), (''operator'', JStr ''=''),
                       (''value'', JStr ''10.10.0.0/16''), (''type'', JStr ''vuln'')]
      \<and> fl ! 1 = JObj [(''filterName'', JStr ''severity''), (''operator'', JStr ''>=''),
                       (''value'', JStr ''3''), (''type'', JStr ''vuln'')]"
    by (auto simp add: demo_filters_def)
  with kw0 fl(1) show ?thesis by blast
qed

subsection \<open>All pages\<close>

lemma paged_server_serves: "serves_pages (paged_server tr) tr"
  unfolding serves_pages_def
proof (intro allI impI)
  fix hist rq a b
  let ?r = "\<lparr>body = Some (JObj
                [(''response'', JObj
                    [(''totalRecords'', JInt tr), (''startOffset'', JInt a),
                     (''endOffset'', JInt b),
                     (''results'', JArr (replicate (nat (min b tr - a)) JNull))]),
                 (''error_code'', JInt 0), (''error_msg'', JStr [])]),
             set_cookie = []\<rparr>"
  assume "query_item rq ''startOffset'' = Inr (JInt a) \<and> query_item rq ''endOffset'' = Inr (JInt b)"
  then have "paged_server tr (hist @ [rq]) = Inr ?r"
    by (simp add: paged_server_def)
  moreover have "page_reply ?r tr b (nat (min b tr - a))"
    by (simp add: page_reply_def error_check_defs return_results_def response_int_def
        response_item_def)
  ultimately show "\<exists>r. paged_server tr (hist @ [rq]) = Inr r
      \<and> page_reply r tr b (nat (min b tr - a))"
    by blast
qed

lemma append_items_eq:
  "append_items out acc = (case out of PyList items \<Rightarrow> acc @ items | _ \<Rightarrow> acc)"
proof (cases out)
  case (PyList items)
  have "fold (\<lambda>item acc. acc @ [item]) items acc = acc @ items"
    by (induction items arbitrary: acc) auto
  with PyList show ?thesis by (simp add: append_items_def)
next
  case (PyTuple items)
  then show ?thesis by (simp add: append_items_def)
next
  case PyOther
  then show ?thesis by (simp add: append_items_def)
qed

lemma return_results_any: "return_results kw r = return_results [] r"
  by (simp add: return_results_def)

lemma analysis_step_all:
  assumes srv: "serves_pages srv tr"
    and opts: "page opts = AllPages" "page_obj opts = return_results"
    and q: "kwargs_query_item (kwargs st) ''startOffset'' = Inr (JInt a)"
           "kwargs_query_item (kwargs st) ''endOffset'' = Inr (JInt b)"
  shows "\<exists>st' s' items. analysis_step srv opts st s = (Inr st', s')
           \<and> sent s' = sent s @ [analysis_request (kwargs st) s]
           \<and> count st' = b \<and> total_records st' = tr
           \<and> outputs st' = outputs st @ items \<and> length items = nat (min b tr - a)
           \<and> kwargs_query_item (kwargs st') ''startOffset'' = Inr (JInt b)
           \<and> kwargs_query_item (kwargs st') ''endOffset'' = Inr (JInt (b + page_size opts))"
proof -
  let ?rq = "analysis_request (kwargs st) s"
  from srv q obtain r where r: "srv (sent s @ [?rq]) = Inr r"
    and reply: "page_reply r tr b (nat (min b tr - a))"
    unfolding serves_pages_def query_item_analysis_request[symmetric, of _ _ s] by blast
  from reply obtain items where
    chk: "resp_error_check r = Inr r"
    and items: "return_results [] r = Inr (PyList items)" "length items = nat (min b tr - a)"
    and tot: "response_int r ''totalRecords'' = Inr tr"
    and eo: "response_int r ''endOffset'' = Inr b"
    by (auto simp add: page_reply_def split: sum.splits pyout.splits)
  obtain s1 where
    req: "api_request srv ''POST'' ''analysis'' (JsonPayload (JObj (kwargs st))) s = (Inr r, s1)"
    using r chk by (simp add: api_request_def Let_def analysis_request_def)
  from api_request_sent[OF req] have s1: "sent s1 = sent s @ [?rq]"
    by (simp add: analysis_request_def)
  from set_query_item_ok[OF q(1), of "''startOffset''" "JInt b"] obtain kw1 where
    kw1: "set_query_item (kwargs st) ''startOffset'' (JInt b) = Inr kw1"
    and kw1i: "\<And>k. kwargs_query_item kw1 k
        = (if k = ''startOffset'' then Inr (JInt b) else kwargs_query_item (kwargs st) k)"
    by blast
  from kw1i[of "''endOffset''"] q(2) have "kwargs_query_item kw1 ''endOffset'' = Inr (JInt b)"
    by simp
  from set_query_item_ok[OF this, of "''endOffset''" "JInt (b + page_size opts)"] obtain kw2 where
    kw2: "set_query_item kw1 ''endOffset'' (JInt (b + page_size opts)) = Inr kw2"
    and kw2i: "\<And>k. kwargs_query_item kw2 k
        = (if k = ''endOffset'' then Inr (JInt (b + page_size opts)) else kwargs_query_item kw1 k)"
    by blast
  have step: "analysis_step srv opts st s =
      (Inr \<lparr>kwargs = kw2, count = b, total_records = tr,
            outputs = append_items (PyList items) (outputs st)\<rparr>, s1)"
    using req opts items(1) tot eo kw1 kw2 return_results_any[of "page_kwargs opts" r]
    by (simp add: analysis_step_def bind_err_simps)
  show ?thesis
    using step s1 items(2) kw1i[of "''startOffset''"] kw2i[of "''startOffset''"]
      kw2i[of "''endOffset''"]
    by (simp add: append_items_eq)
qed

text \<open>
  C3: with \<^verbatim>\<open>page='all'\<close> and \<^verbatim>\<open>page_size=1000\<close> (given or by default), the default
  transform and a query built from \<^verbatim>\<open>tool\<close>, against a server that serves pages of 2500
  records, \<open>analysis\<close> returns after exactly three \<^verbatim>\<open>POST\<close> requests to
  \<^verbatim>\<open>analysis\<close> whose offsets are (0,1000), (1000,2000) and (2000,3000), and the list it
  returns has 2500 items.
\<close>

theorem analysis_all_pages_2500:
  assumes srv: "serves_pages srv 2500"
    and pg: "kw_page kw = None \<or> kw_page kw = Some AllPages"
    and sz: "kw_page_size kw = None \<or> kw_page_size kw = Some 1000"
    and kw: "kw_page_obj kw = None" "kw_query kw = None" "kw_tool kw = Some tool"
  shows "\<exists>out s' rq1 rq2 rq3.
           analysis (Suc (Suc (Suc n))) srv filters kw s = (Some (Inr (Some out)), s')
         \<and> length out = 2500
         \<and> sent s' = sent s @ [rq1, rq2, rq3]
         \<and> meth rq1 = ''POST'' \<and> path rq1 = ''analysis''
         \<and> meth rq2 = ''POST'' \<and> path rq2 = ''analysis''
         \<and> meth rq3 = ''POST'' \<and> path rq3 = ''analysis''
         \<and> query_item rq1 ''startOffset'' = Inr (JInt 0)
         \<and> query_item rq1 ''endOffset'' = Inr (JInt 1000)
         \<and> query_item rq2 ''startOffset'' = Inr (JInt 1000)
         \<and> query_item rq2 ''endOffset'' = Inr (JInt 2000)
         \<and> query_item rq3 ''startOffset'' = Inr (JInt 2000)
         \<and> query_item rq3 ''endOffset'' = Inr (JInt 3000)"
proof -
  let ?opts = "analysis_opts kw"
  have opts: "page ?opts = AllPages" "page_obj ?opts = return_results" "page_size ?opts = 1000"
    using pg sz kw(1) by (auto simp add: analysis_opts_def)
  from analysis_kwargs_all[OF pg kw(2,3), of filters] opts(3) obtain kw0 where
    kw0: "analysis_kwargs filters kw = Inr kw0"
    and q0: "kwargs_query_item kw0 ''startOffset'' = Inr (JInt 0)"
            "kwargs_query_item kw0 ''endOffset'' = Inr (JInt 1000)"
    by auto
  let ?st0 = "\<lparr>kwargs = kw0, count = 0, total_records = 1000, outputs = []\<rparr>"
  from analysis_step_all[OF srv opts(1,2), of ?st0 0 1000 s] q0 opts(3)
  obtain st1 s1 items1 where
    step1: "analysis_step srv ?opts ?st0 s = (Inr st1, s1)"
    and s1: "sent s1 = sent s @ [analysis_request kw0 s]"
    and st1: "count st1 = 1000" "total_records st1 = 2500" "outputs st1 = items1"
      "length items1 = 1000"
    and q1: "kwargs_query_item (kwargs st1) ''startOffset'' = Inr (JInt 1000)"
            "kwargs_query_item (kwargs st1) ''endOffset'' = Inr (JInt 2000)"
    by auto
  from analysis_step_all[OF srv opts(1,2) q1, of s1] opts(3)
  obtain st2 s2 items2 where
    step2: "analysis_step srv ?opts st1 s1 = (Inr st2, s2)"
    and s2: "sent s2 = sent s1 @ [analysis_request (kwargs st1) s1]"
    and st2: "count st2 = 2000" "total_records st2 = 2500" "outputs st2 = outputs st1 @ items2"
      "length items2 = 1000"
    and q2: "kwargs_query_item (kwargs st2) ''startOffset'' = Inr (JInt 2000)"
            "kwargs_query_item (kwargs st2) ''endOffset'' = Inr (JInt 3000)"
    by auto
  from analysis_step_all[OF srv opts(1,2) q2, of s2] opts(3)
  obtain st3 s3 items3 where
    step3: "analysis_step srv ?opts st2 s2 = (Inr st3, s3)"
    and s3: "sent s3 = sent s2 @ [analysis_request (kwargs st2) s2]"
    and st3: "count st3 = 3000" "total_records st3 = 2500" "outputs st3 = outputs st2 @ items3"
      "length items3 = 500"
    by auto
  have "analysis_loop n srv ?opts st3 s3 = (Some (Inr (outputs st3)), s3)"
    using st3 by (intro analysis_loop_done) simp
  then have loop: "analysis_loop (Suc (Suc (Suc n))) srv ?opts ?st0 s
      = (Some (Inr (outputs st3)), s3)"
    using step1 step2 step3 st1 st2 by simp
  have len: "length (outputs st3) = 2500"
    using st1 st2 st3 by simp
  have "analysis (Suc (Suc (Suc n))) srv filters kw s
      = (Some (Inr (analysis_return (outputs st3))), s3)"
    by (simp add: analysis_def Let_def kw0 opts(3) loop del: analysis_loop.simps)
  moreover have "analysis_return (outputs st3) = Some (outputs st3)"
    using len by (simp add: analysis_return_def)
  ultimately have res: "analysis (Suc (Suc (Suc n))) srv filters kw s
      = (Some (Inr (Some (outputs st3))), s3)"
    by simp
  have snt: "sent s3 = sent s @ [analysis_request kw0 s, analysis_request (kwargs st1) s1,
      analysis_request (kwargs st2) s2]"
    using s1 s2 s3 by simp
  show ?thesis
    using res len snt analysis_request_post q0 q1 q2
    by (intro exI[of _ "outputs st3"] exI[of _ s3] exI[of _ "analysis_request kw0 s"]
        exI[of _ "analysis_request (kwargs st1) s1"] exI[of _ "analysis_request (kwargs st2) s2"])
      (simp add: query_item_analysis_request)
qed

text \<open>The call \<^verbatim>\<open>analysis(tool='sumip')\<close> against the page server with 2500 records.\<close>

theorem analysis_all_pages_2500_witness:
  "serves_pages (paged_server 2500) 2500 \<and>
   (\<exists>out s' rq1 rq2 rq3.
      analysis (Suc (Suc (Suc 0))) (paged_server 2500) demo_filters all_kwargs empty_session
        = (Some (Inr (Some out)), s')
      \<and> length out = 2500 \<and> sent s' = sent empty_session @ [rq1, rq2, rq3]
      \<and> query_item rq1 ''startOffset'' = Inr (JInt 0)
      \<and> query_item rq1 ''endOffset'' = Inr (JInt 1000)
      \<and> query_item rq2 ''startOffset'' = Inr (JInt 1000)
      \<and> query_item rq2 ''endOffset'' = Inr (JInt 2000)
      \<and> query_item rq3 ''startOffset'' = Inr (JInt 2000)
      \<and> query_item rq3 ''endOffset'' = Inr (JInt 3000))"
proof -
  have kw: "kw_page all_kwargs = None \<or> kw_page all_kwargs = Some AllPages"
    "kw_page_size all_kwargs = None \<or> kw_page_size all_kwargs = Some 1000"
    "kw_page_obj all_kwargs = None" "kw_query all_kwargs = None"
    "kw_tool all_kwargs = Some (JStr ''sumip'')"
    by (simp_all add: all_kwargs_def)
  from analysis_all_pages_2500[OF paged_server_serves kw, of 0 demo_filters empty_session]
    paged_server_serves[of 2500]
  show ?thesis by blast
qed

subsection \<open>A single page\<close>

text \<open>
  C4, as stated, fails for a call that brings its own query body: the offsets are only
  written into a query that \<open>analysis\<close> builds itself, under
  \<^verbatim>\<open>if 'query' not in kwargs\<close>. With \<^verbatim>\<open>page=2\<close>, \<^verbatim>\<open>page_size=500\<close> and the query
  \<^verbatim>\<open>{'id': '5'}\<close> the one request has no \<^verbatim>\<open>startOffset\<close> and no \<^verbatim>\<open>endOffset\<close>.
\<close>

theorem analysis_custom_query_offsets:
  "map (\<lambda>rq. (meth rq, path rq, request_query rq,
               query_item rq ''startOffset'', query_item rq ''endOffset''))
     (sent (snd (analysis (Suc 0) (fixed_server (demo_reply [])) demo_filters custom_kwargs
                   empty_session)))
   = [(''POST'', ''analysis'', Inr (JObj [(''id'', JStr ''5'')]),
       Inl (KeyError ''startOffset''), Inl (KeyError ''endOffset''))]"
  by (simp add: model_defs demo_defs int_of_str_2 query_item_def request_query_def)

text \<open>
  C4, amended: for every call with a page number \<open>p\<close> and a positive page size \<open>sz\<close>
  that gives a tool or a query body, \<open>analysis\<close> comes to an end after exactly one
  \<^verbatim>\<open>POST\<close> request to \<^verbatim>\<open>analysis\<close>, whatever the server answers. When \<open>analysis\<close>
  builds the query, the request has \<^verbatim>\<open>startOffset\<close> \<open>p * sz\<close> and \<^verbatim>\<open>endOffset\<close>
  \<open>(p + 1) * sz\<close>; when the caller gave the query, the request carries it as given.
\<close>

theorem analysis_single_page:
  assumes "kw_page kw = Some (PageNo p)" and "kw_page_size kw = Some sz" and "0 < sz"
    and "kw_tool kw \<noteq> None \<or> kw_query kw \<noteq> None"
  shows "\<exists>r s' rq. analysis (Suc n) srv filters kw s = (Some r, s')
           \<and> sent s' = sent s @ [rq] \<and> meth rq = ''POST'' \<and> path rq = ''analysis''
           \<and> (kw_query kw = None \<longrightarrow>
                query_item rq ''startOffset'' = Inr (JInt (p * sz))
              \<and> query_item rq ''endOffset'' = Inr (JInt ((p + 1) * sz)))
           \<and> (\<forall>q. kw_query kw = Some q \<longrightarrow> request_query rq = Inr (JObj q))"
proof -
  from analysis_kwargs_ok[OF assms(4)] obtain kw0 where
    kw0: "analysis_kwargs filters kw = Inr kw0" by blast
  let ?opts = "analysis_opts kw"
  let ?st = "\<lparr>kwargs = kw0, count = 0, total_records = page_size ?opts, outputs = []\<rparr>"
  have pg: "page ?opts = PageNo p" and sz: "page_size ?opts = sz"
    using assms(1,2) by (simp_all add: analysis_opts_def)
  with assms(3) have "total_records ?st > count ?st" by simp
  from analysis_loop_page[OF pg this, of n srv s] obtain r1 s1 where
    loop: "analysis_loop (Suc n) srv ?opts ?st s = (Some r1, s1)"
    and s1: "sent s1 = sent s @ [analysis_request kw0 s]" by auto
  from loop kw0 obtain r where r: "analysis (Suc n) srv filters kw s = (Some r, s1)"
    by (cases r1) (simp_all add: analysis_def Let_def)
  note offs = analysis_kwargs_offsets[OF _ kw0 assms(1,2)]
  note cust = analysis_kwargs_custom[OF _ kw0, of _ s]
  show ?thesis
    using r s1 analysis_request_post[of kw0 s] offs cust
    by (intro exI[of _ r] exI[of _ s1] exI[of _ "analysis_request kw0 s"])
      (simp add: query_item_analysis_request)
qed

text \<open>\<^verbatim>\<open>page=2\<close> and \<^verbatim>\<open>page_size=500\<close> against a server that reports 2500 records.\<close>

theorem analysis_single_page_witness:
  "\<exists>r s' rq. analysis (Suc 0) (paged_server 2500) demo_filters page_kwargs_2_500 empty_session
               = (Some r, s')
      \<and> sent s' = [rq] \<and> meth rq = ''POST'' \<and> path rq = ''analysis''
      \<and> query_item rq ''startOffset'' = Inr (JInt 1000)
      \<and> query_item rq ''endOffset'' = Inr (JInt 1500)"
  using analysis_single_page[of page_kwargs_2_500 2 500 0 "paged_server 2500" demo_filters
      empty_session]
  by (simp add: page_kwargs_2_500_def all_kwargs_def empty_session_def)

subsection \<open>The first request\<close>

text \<open>
  C9, as stated, fails for a call that gives neither a tool nor a query body: building
  the query reads \<^verbatim>\<open>kwargs['tool']\<close>, which raises a \<^verbatim>\<open>KeyError\<close> before the loop,
  and nothing is sent, although the page size is the default 1000.
\<close>

theorem analysis_without_tool_sends_nothing:
  "page_size (analysis_opts no_tool_kwargs) = 1000
   \<and> analysis (Suc 0) (paged_server 0) demo_filters no_tool_kwargs empty_session
     = (Some (Inl (KeyError ''tool'')), empty_session)
   \<and> sent (snd (analysis (Suc 0) (paged_server 0) demo_filters no_tool_kwargs empty_session))
     = []"
  by (simp add: analysis_def analysis_kwargs_def analysis_opts_def Let_def demo_defs)

text \<open>
  C9, amended: every call with a positive page size (given, or the default 1000) that
  gives a tool or a query body sends at least one \<^verbatim>\<open>POST\<close> request to \<^verbatim>\<open>analysis\<close>,
  whatever the server is and whatever page is asked for: the loop starts with the total
  set to the page size and the count at 0.
\<close>

theorem analysis_posts_at_least_once:
  assumes "0 < page_size (analysis_opts kw)"
    and "kw_tool kw \<noteq> None \<or> kw_query kw \<noteq> None"
  shows "\<exists>rq rqs. sent (snd (analysis (Suc n) srv filters kw s)) = sent s @ rq # rqs
           \<and> meth rq = ''POST'' \<and> path rq = ''analysis''"
proof -
  from analysis_kwargs_ok[OF assms(2)] obtain kw0 where
    kw0: "analysis_kwargs filters kw = Inr kw0" by blast
  let ?st = "\<lparr>kwargs = kw0, count = 0, total_records = page_size (analysis_opts kw),
              outputs = []\<rparr>"
  obtain r1 s1 where loop: "analysis_loop (Suc n) srv (analysis_opts kw) ?st s = (r1, s1)"
    by (cases "analysis_loop (Suc n) srv (analysis_opts kw) ?st s")
  with kw0 have "snd (analysis (Suc n) srv filters kw s) = s1"
    by (auto simp add: analysis_def Let_def split: option.splits sum.splits)
  with analysis_loop_first[of ?st n srv "analysis_opts kw" s r1 s1] loop assms(1)
    analysis_request_post[of kw0 s]
  show ?thesis by auto
qed

text \<open>The default page size against a server that has no record at all.\<close>

theorem analysis_posts_at_least_once_witness:
  "\<exists>rq rqs. sent (snd (analysis (Suc 0) (paged_server 0) demo_filters all_kwargs empty_session))
               = rq # rqs
      \<and> meth rq = ''POST'' \<and> path rq = ''analysis''"
  using analysis_posts_at_least_once[of all_kwargs 0 "paged_server 0" demo_filters empty_session]
  by (simp add: all_kwargs_def analysis_opts_def empty_session_def)

subsection \<open>Accumulating the results\<close>

text \<open>
  C6, as stated, fails for a sequence that is not a list: the code appends under
  \<^verbatim>\<open>isinstance(out, list)\<close> only, so the two elements of a tuple that the transform
  returns are not appended and the accumulated output stays as it was.
\<close>

theorem analysis_step_drops_tuple:
  "page_obj (demo_opts return_tuple) (page_kwargs (demo_opts return_tuple))
       \<lparr>body = Some (demo_reply []), set_cookie = []\<rparr>
     = Inr (PyTuple [JInt 7, JInt 8])
   \<and> is_sequence (PyTuple [JInt 7, JInt 8])
   \<and> outputs demo_state = [JInt 1]
   \<and> fst (analysis_step (fixed_server (demo_reply [])) (demo_opts return_tuple) demo_state
            empty_session)
     = Inr \<lparr>kwargs = kwargs demo_state, count = 2, total_records = 2, outputs = [JInt 1]\<rparr>"
  by (simp add: model_defs demo_defs int_of_str_2)

text \<open>
  C6, amended: in a pass of the loop that goes through, when the transform returns a
  list its items are appended, in order, to the accumulated output, and when it returns
  anything that is not a list (another sequence such as a tuple included) the
  accumulated output stays as it was.
\<close>

theorem analysis_step_accumulates:
  assumes "api_request srv ''POST'' ''analysis'' (JsonPayload (JObj (kwargs st))) s = (Inr resp, s1)"
    and "page_obj opts (page_kwargs opts) resp = Inr out"
    and "analysis_step srv opts st s = (Inr st', s')"
  shows "outputs st' = (case out of PyList items \<Rightarrow> outputs st @ items | _ \<Rightarrow> outputs st)"
proof -
  from assms obtain tr where
    "(case page opts of
        AllPages \<Rightarrow>
          bind_err (response_int resp ''endOffset'') (\<lambda>cnt.
          bind_err (set_query_item (kwargs st) ''startOffset'' (JInt cnt)) (\<lambda>kw1.
          bind_err (set_query_item kw1 ''endOffset'' (JInt (cnt + page_size opts))) (\<lambda>kw2.
            Inr \<lparr>kwargs = kw2, count = cnt, total_records = tr,
                 outputs = append_items out (outputs st)\<rparr>)))
      | PageNo p \<Rightarrow>
          Inr \<lparr>kwargs = kwargs st, count = tr, total_records = tr,
               outputs = append_items out (outputs st)\<rparr>) = Inr st'"
    by (auto simp add: analysis_step_def bind_err_simps bind_err_Inr_iff)
  then have "outputs st' = append_items out (outputs st)"
    by (cases "page opts") (auto simp add: bind_err_Inr_iff)
  then show ?thesis by (simp add: append_items_eq)
qed

text \<open>
  One pass that starts with one item and gets two results: the default transform adds
  them, the generator function, whose result is not a list, adds nothing.
\<close>

theorem analysis_step_accumulates_witness:
  "(\<exists>st'. fst (analysis_step (fixed_server (demo_reply [JInt 7, JInt 8]))
                 (demo_opts return_results) demo_state empty_session) = Inr st'
      \<and> outputs st' = [JInt 1, JInt 7, JInt 8])
   \<and> (\<exists>st'. fst (analysis_step (fixed_server (demo_reply [JInt 7, JInt 8]))
                 (demo_opts return_generator) demo_state empty_session) = Inr st'
      \<and> outputs st' = [JInt 1])"
proof -
  let ?srv = "fixed_server (demo_reply [JInt 7, JInt 8])"
  let ?resp = "\<lparr>body = Some (demo_reply [JInt 7, JInt 8]), set_cookie = []\<rparr>"
  let ?rq = "api_request ?srv ''POST'' ''analysis'' (JsonPayload (JObj (kwargs demo_state)))
      empty_session"
  have "fst ?rq = Inr ?resp"
    by (rule api_request_fixed_ok) (simp add: demo_reply_def)
  then have rq: "?rq = (Inr ?resp, snd ?rq)"
    by (simp add: prod_eq_iff)
  have "\<exists>st'. fst (analysis_step ?srv (demo_opts f) demo_state empty_session) = Inr st'"
    if "f = return_results \<or> f = return_generator" for f
    using that
    by (auto simp add: model_defs demo_defs return_generator_def int_of_str_2)
  then obtain st1 st2 where
    st1: "fst (analysis_step ?srv (demo_opts return_results) demo_state empty_session) = Inr st1"
    and st2: "fst (analysis_step ?srv (demo_opts return_generator) demo_state empty_session) = Inr st2"
    by blast
  have out1: "page_obj (demo_opts return_results) (page_kwargs (demo_opts return_results)) ?resp
      = Inr (PyList [JInt 7, JInt 8])"
    by (simp add: demo_opts_def demo_reply_def return_results_def response_item_def
        resp_json_def bind_err_def)
  have out2: "page_obj (demo_opts return_generator) (page_kwargs (demo_opts return_generator)) ?resp
      = Inr PyOther"
    by (simp add: demo_opts_def return_generator_def)
  from st1 have "analysis_step ?srv (demo_opts return_results) demo_state empty_session
      = (Inr st1, snd (analysis_step ?srv (demo_opts return_results) demo_state empty_session))"
    by (simp add: prod_eq_iff)
  from analysis_step_accumulates[OF rq out1 this]
  have "outputs st1 = [JInt 1, JInt 7, JInt 8]" by (simp add: demo_state_def)
  moreover
  from st2 have "analysis_step ?srv (demo_opts return_generator) demo_state empty_session
      = (Inr st2, snd (analysis_step ?srv (demo_opts return_generator) demo_state empty_session))"
    by (simp add: prod_eq_iff)
  from analysis_step_accumulates[OF rq out2 this]
  have "outputs st2 = [JInt 1]" by (simp add: demo_state_def)
  ultimately show ?thesis using st1 st2 by blast
qed

subsection \<open>The returned value\<close>





subsection \<open>The \<^verbatim>\<open>generator\<close> option\<close>

lemma build_query_generator:
  "build_query filters tool ty (opts\<lparr>generator := g\<rparr>) = build_query filters tool ty opts"
  by (cases "page opts") (simp_all add: build_query_def Let_def)

lemma analysis_step_generator:
  "analysis_step srv (opts\<lparr>generator := g\<rparr>) st s = analysis_step srv opts st s"
  by (cases "page opts") (simp_all add: analysis_step_def split: prod.splits sum.splits)

lemma analysis_loop_generator:
  "analysis_loop n srv (opts\<lparr>generator := g\<rparr>) st s = analysis_loop n srv opts st s"
proof (induction n arbitrary: st s)
  case 0
  show ?case by simp
next
  case (Suc n)
  show ?case
    by (simp add: analysis_step_generator Suc.IH split: prod.splits sum.splits)
qed

lemma analysis_opts_generator:
  "analysis_opts (kw\<lparr>kw_generator := g\<rparr>)
     = (analysis_opts kw)\<lparr>generator := (case g of None \<Rightarrow> None | Some x \<Rightarrow> Some return_generator)\<rparr>"
  by (simp add: analysis_opts_def)

lemma analysis_kwargs_generator:
  "analysis_kwargs filters (kw\<lparr>kw_generator := g\<rparr>) = analysis_kwargs filters kw"
  by (simp add: analysis_kwargs_def analysis_opts_generator build_query_generator Let_def
      split: option.splits)

lemma analysis_generator_any:
  "analysis n srv filters (kw\<lparr>kw_generator := g\<rparr>) s = analysis n srv filters kw s"
  by (simp add: analysis_def analysis_kwargs_generator analysis_opts_generator
      analysis_loop_generator Let_def cong: sum.case_cong)

text \<open>
  C10: a call with the \<^verbatim>\<open>generator\<close> option, whatever its value, has the same outcome
  as the call without it: the same returned value or exception, and the same requests
  sent, bodies included.
\<close>

theorem analysis_ignores_generator:
  "analysis n srv filters (kw\<lparr>kw_generator := Some g\<rparr>) s
     = analysis n srv filters (kw\<lparr>kw_generator := None\<rparr>) s"
  by (simp add: analysis_generator_any)

end
